theory Spec2Isabelle
  imports Main
begin

section \<open>The offline cache controller (service worker) of the shop\<close>

text \<open>
  The worker script registers three listeners: \<^verbatim>\<open>install\<close>, \<^verbatim>\<open>activate\<close> and
  \<^verbatim>\<open>fetch\<close>. Each of them is a chain of promises over the browser's cache storage
  (\<^verbatim>\<open>caches\<close>) and the network (\<^verbatim>\<open>fetch\<close>). The embedding keeps that shape: a promise is
  a computation over the state of the browser that settles as fulfilled or rejected, and
  \<^verbatim>\<open>.then\<close>, \<^verbatim>\<open>.catch\<close> and \<^verbatim>\<open>Promise.all\<close> are combinators on such computations.
  What the browser decides (whether the network answers, whether a storage operation is
  refused) is a parameter, the \<open>host\<close>.
\<close>

subsection \<open>Requests, responses and the cache storage\<close>

record request =
  req_method :: string
  url :: string
  mode :: string

record response =
  status :: nat
  body :: string

text \<open>
  A \<^verbatim>\<open>Response\<close> object of the script is a response with an identity. Its body is a stream
  that can be read once: the state of the browser records which objects have had their body
  read, and two objects with the same status and body are still two streams.
\<close>

record response_object = response +
  ident :: nat

definition content :: "response_object \<Rightarrow> response" where
  "content r = \<lparr>status = status r, body = body r\<rparr>"

text \<open>
  A cache is the list of its request/response pairs, oldest first. The cache storage maps
  a name to a cache and enumerates its names in creation order.
\<close>

type_synonym cache = "(request \<times> response) list"

type_synonym storage = "(string \<times> cache) list"

definition bucket :: "storage \<Rightarrow> string \<Rightarrow> cache" where
  "bucket s name = (case map_of s name of Some c \<Rightarrow> c | None \<Rightarrow> [])"

text \<open>
  The state of the browser, as far as the worker can tell: the cache storage of the origin,
  the \<^verbatim>\<open>Response\<close> objects whose body has been read, and the identity the next new object
  gets.
\<close>

record world =
  stored :: storage
  used :: "nat set"
  fresh :: nat

definition new_world :: "storage \<Rightarrow> world" where
  "new_world s = \<lparr>stored = s, used = {}, fresh = 0\<rparr>"

definition new_response :: "response \<Rightarrow> world \<Rightarrow> response_object \<times> world" where
  "new_response r w =
     (\<lparr>status = status r, body = body r, ident = fresh w\<rparr>, w\<lparr>fresh := Suc (fresh w)\<rparr>)"

subsection \<open>Promises\<close>

datatype error = NetworkError | TypeError | StorageError

datatype 'a settled = Fulfilled 'a | Rejected error

fun fulfilled :: "'a settled \<Rightarrow> bool" where
  "fulfilled (Fulfilled v) = True"
| "fulfilled (Rejected e) = False"

text \<open>
  Running a promise chain gives its settlement, the state at that moment, and the work that
  the chain has started without waiting for it: that work takes effect later, after the
  chain has settled.
\<close>

type_synonym 'a promise = "world \<Rightarrow> 'a settled \<times> world \<times> (world \<Rightarrow> world)"

definition resolve :: "'a \<Rightarrow> 'a promise" where
  "resolve v = (\<lambda>w. (Fulfilled v, w, id))"

definition reject :: "error \<Rightarrow> 'a promise" where
  "reject e = (\<lambda>w. (Rejected e, w, id))"

text \<open>\<^verbatim>\<open>p.then(f)\<close>: \<open>f\<close> runs on the value of a fulfilled \<open>p\<close>; a rejection passes through.\<close>

definition then_p :: "'a promise \<Rightarrow> ('a \<Rightarrow> 'b promise) \<Rightarrow> 'b promise" where
  "then_p p f = (\<lambda>w. case p w of
       (Fulfilled v, w', later) \<Rightarrow>
         (case f v w' of (r, w'', later') \<Rightarrow> (r, w'', later' \<circ> later))
     | (Rejected e, w', later) \<Rightarrow> (Rejected e, w', later))"

text \<open>\<^verbatim>\<open>p.catch(g)\<close>: \<open>g\<close> runs on the reason of a rejected \<open>p\<close>; a value passes through.\<close>

definition catch_p :: "'a promise \<Rightarrow> (error \<Rightarrow> 'a promise) \<Rightarrow> 'a promise" where
  "catch_p p g = (\<lambda>w. case p w of
       (Fulfilled v, w', later) \<Rightarrow> (Fulfilled v, w', later)
     | (Rejected e, w', later) \<Rightarrow>
         (case g e w' of (r, w'', later') \<Rightarrow> (r, w'', later' \<circ> later)))"

text \<open>
  A promise that is created and then dropped (neither returned nor awaited): the chain that
  created it goes on at once, as if with \<^verbatim>\<open>undefined\<close>. The work the dropped promise stands
  for, and the work that it starts in turn, happens later; its outcome reaches nobody.
\<close>

definition finish :: "'a promise \<Rightarrow> world \<Rightarrow> world" where
  "finish p = (\<lambda>w. case p w of (r, w', later) \<Rightarrow> later w')"

definition detach :: "'a promise \<Rightarrow> unit promise" where
  "detach p = (\<lambda>w. (Fulfilled (), w, finish p))"

text \<open>
  \<^verbatim>\<open>Promise.all(ps)\<close>: every operation of the list has been started when the list is built,
  so all of them run; the result is the list of values when all are fulfilled and the first
  rejection otherwise.
\<close>

fun run_all :: "'a promise list \<Rightarrow> world \<Rightarrow> 'a settled list \<times> world \<times> (world \<Rightarrow> world)" where
  "run_all [] w = ([], w, id)"
| "run_all (p # ps) w =
     (case p w of (r, w', later) \<Rightarrow>
        (case run_all ps w' of (rs, w'', later') \<Rightarrow> (r # rs, w'', later' \<circ> later)))"

fun collect :: "'a settled list \<Rightarrow> 'a list settled" where
  "collect [] = Fulfilled []"
| "collect (Rejected e # rs) = Rejected e"
| "collect (Fulfilled v # rs) =
     (case collect rs of Fulfilled vs \<Rightarrow> Fulfilled (v # vs) | Rejected e \<Rightarrow> Rejected e)"

definition Promise_all :: "'a promise list \<Rightarrow> 'a list promise" where
  "Promise_all ps = (\<lambda>w. case run_all ps w of (rs, w', later) \<Rightarrow> (collect rs, w', later))"

subsection \<open>Strings\<close>

text \<open>\<^verbatim>\<open>s.startsWith(p)\<close> and \<^verbatim>\<open>s.includes(p)\<close>.\<close>

definition startsWith :: "string \<Rightarrow> string \<Rightarrow> bool" where
  "startsWith s p = (take (length p) s = p)"

fun str_includes :: "string \<Rightarrow> string \<Rightarrow> bool" where
  "str_includes [] p = (p = [])"
| "str_includes (c # cs) p = (startsWith (c # cs) p \<or> str_includes cs p)"

text \<open>A URL without its fragment: the text before the first \<^verbatim>\<open>#\<close>.\<close>

definition strip_fragment :: "string \<Rightarrow> string" where
  "strip_fragment u = takeWhile (\<lambda>c. c \<noteq> CHR ''#'') u"

subsection \<open>The host: network and Cache API\<close>

text \<open>
  \<open>origin\<close> is the worker's origin, against which a path such as \<^verbatim>\<open>'/'\<close> is resolved.
  \<open>network\<close> is the outcome of \<^verbatim>\<open>fetch(request)\<close>: a response, or \<open>None\<close> when no response
  can be obtained. \<open>delete_rejects\<close> and \<open>put_rejects\<close> say which storage operations the
  browser refuses.
\<close>

record host =
  origin :: string
  network :: "request \<Rightarrow> response option"
  delete_rejects :: "string \<Rightarrow> bool"
  put_rejects :: "request \<Rightarrow> bool"

text \<open>\<^verbatim>\<open>fetch(request)\<close> is fulfilled with a new \<^verbatim>\<open>Response\<close> object, its body unread.\<close>

definition net_fetch :: "host \<Rightarrow> request \<Rightarrow> response_object promise" where
  "net_fetch h req = (\<lambda>w. case network h req of
       Some r \<Rightarrow> (case new_response r w of (obj, w') \<Rightarrow> (Fulfilled obj, w', id))
     | None \<Rightarrow> reject NetworkError w)"

text \<open>
  \<^verbatim>\<open>response.clone()\<close>: a second object with the same status and body and a stream of its
  own. It throws when the body of the response has been read already.
\<close>

definition clone :: "response_object \<Rightarrow> response_object promise" where
  "clone r = (\<lambda>w. if ident r \<in> used w then (Rejected TypeError, w, id)
       else (case new_response (content r) w of (obj, w') \<Rightarrow> (Fulfilled obj, w', id)))"

text \<open>A URL string handed to the Cache API becomes a GET request for the resolved URL.\<close>

definition url_request :: "host \<Rightarrow> string \<Rightarrow> request" where
  "url_request h u = \<lparr>req_method = ''GET'', url = origin h @ u, mode = ''cors''\<rparr>"

text \<open>\<^verbatim>\<open>caches.open(name)\<close> creates the cache when it is absent and yields a handle on it.\<close>

definition open_bucket :: "string \<Rightarrow> storage \<Rightarrow> storage" where
  "open_bucket name s = (if name \<in> set (map fst s) then s else s @ [(name, [])])"

definition caches_open :: "string \<Rightarrow> string promise" where
  "caches_open name =
     (\<lambda>w. (Fulfilled name, w\<lparr>stored := open_bucket name (stored w)\<rparr>, id))"

definition caches_keys :: "string list promise" where
  "caches_keys = (\<lambda>w. (Fulfilled (map fst (stored w)), w, id))"

text \<open>\<^verbatim>\<open>caches.delete(name)\<close> yields whether a cache of that name existed.\<close>

definition caches_delete :: "host \<Rightarrow> string \<Rightarrow> bool promise" where
  "caches_delete h name =
     (\<lambda>w. if delete_rejects h name then (Rejected StorageError, w, id)
          else (Fulfilled (name \<in> set (map fst (stored w))),
                w\<lparr>stored := filter (\<lambda>b. fst b \<noteq> name) (stored w)\<rparr>, id))"

text \<open>
  A stored entry answers a GET request for the same URL; the two URLs are compared without
  their fragments.
\<close>

definition request_matches :: "request \<Rightarrow> request \<Rightarrow> bool" where
  "request_matches q k =
     (req_method q = ''GET'' \<and> strip_fragment (url q) = strip_fragment (url k))"

definition cache_lookup :: "request \<Rightarrow> cache \<Rightarrow> response option" where
  "cache_lookup q c = map_option snd (find (\<lambda>e. request_matches q (fst e)) c)"

text \<open>
  \<^verbatim>\<open>caches.match(request)\<close>, called on the storage and not on one cache, asks every cache of
  the origin in creation order and yields the first entry found, as a new \<^verbatim>\<open>Response\<close>
  object, or \<^verbatim>\<open>undefined\<close>.
\<close>

fun storage_lookup :: "request \<Rightarrow> storage \<Rightarrow> response option" where
  "storage_lookup q [] = None"
| "storage_lookup q ((name, c) # s) =
     (case cache_lookup q c of Some r \<Rightarrow> Some r | None \<Rightarrow> storage_lookup q s)"

definition caches_match :: "request \<Rightarrow> response_object option promise" where
  "caches_match q = (\<lambda>w. case storage_lookup q (stored w) of
       None \<Rightarrow> (Fulfilled None, w, id)
     | Some r \<Rightarrow> (case new_response r w of (obj, w') \<Rightarrow> (Fulfilled (Some obj), w', id)))"

text \<open>
  \<^verbatim>\<open>cache.put(request, response)\<close> reads the body of the response and replaces the entries
  the request matches. It rejects when the body has been read already.
\<close>

definition put_entry :: "request \<Rightarrow> response \<Rightarrow> cache \<Rightarrow> cache" where
  "put_entry req resp c = filter (\<lambda>e. \<not> request_matches req (fst e)) c @ [(req, resp)]"

definition update_bucket :: "string \<Rightarrow> (cache \<Rightarrow> cache) \<Rightarrow> storage \<Rightarrow> storage" where
  "update_bucket name f s = map (\<lambda>b. if fst b = name then (fst b, f (snd b)) else b) s"

definition cache_put :: "host \<Rightarrow> string \<Rightarrow> request \<Rightarrow> response_object \<Rightarrow> unit promise" where
  "cache_put h cache req resp =
     (\<lambda>w. if ident resp \<in> used w then (Rejected TypeError, w, id)
          else if put_rejects h req then (Rejected StorageError, w, id)
          else (Fulfilled (),
                w\<lparr>stored := update_bucket cache (put_entry req (content resp)) (stored w),
                  used := insert (ident resp) (used w)\<rparr>,
                id))"

text \<open>
  \<^verbatim>\<open>cache.addAll(urls)\<close> fetches every URL and stores the responses as one batch: it rejects,
  and stores nothing, when one fetch fails, when one response has a status outside 200..299
  or the status 206, or when the storage refuses one entry.
\<close>

fun fetch_seeds :: "host \<Rightarrow> request list \<Rightarrow> (request \<times> response) list option" where
  "fetch_seeds h [] = Some []"
| "fetch_seeds h (q # qs) =
     (case network h q of
        None \<Rightarrow> None
      | Some r \<Rightarrow>
          if 200 \<le> status r \<and> status r \<le> 299 \<and> status r \<noteq> 206 \<and> \<not> put_rejects h q
          then map_option (\<lambda>es. (q, r) # es) (fetch_seeds h qs)
          else None)"

definition cache_addAll :: "host \<Rightarrow> string \<Rightarrow> string list \<Rightarrow> unit promise" where
  "cache_addAll h cache urls =
     (\<lambda>w. case fetch_seeds h (map (url_request h) urls) of
            None \<Rightarrow> (Rejected TypeError, w, id)
          | Some es \<Rightarrow>
              (Fulfilled (),
               w\<lparr>stored := update_bucket cache
                    (\<lambda>c. fold (\<lambda>e. put_entry (fst e) (snd e)) es c) (stored w)\<rparr>,
               id))"

text \<open>
  \<^verbatim>\<open>event.waitUntil(p)\<close>: the phase lasts until \<open>p\<close> has settled. The result is the
  settlement of \<open>p\<close> and the storage once the work the phase has started is done.
\<close>

definition waitUntil :: "'a promise \<Rightarrow> storage \<Rightarrow> 'a settled \<times> storage" where
  "waitUntil p s = (case p (new_world s) of (r, w, later) \<Rightarrow> (r, stored (later w)))"

text \<open>
  \<^verbatim>\<open>event.respondWith(p)\<close>: when \<open>p\<close> settles the browser answers the page. It reads the
  body of the response it was given, and answers with an error when that body has been read
  before. The work that the chain has started without waiting for it comes after the answer.
  The outcome records the answer, the storage at the moment of the answer, and the storage
  once all that work is done.
\<close>

datatype reply = NotIntercepted | RespondWith "response option settled"

record fetch_outcome =
  answer :: reply
  storage_at_answer :: storage
  storage_settled :: storage

definition deliver :: "response_object option settled \<Rightarrow> world \<Rightarrow> response option settled \<times> world" where
  "deliver r w = (case r of
       Rejected e \<Rightarrow> (Rejected e, w)
     | Fulfilled None \<Rightarrow> (Fulfilled None, w)
     | Fulfilled (Some obj) \<Rightarrow>
         if ident obj \<in> used w then (Rejected TypeError, w)
         else (Fulfilled (Some (content obj)), w\<lparr>used := insert (ident obj) (used w)\<rparr>))"

definition respondWith :: "response_object option promise \<Rightarrow> storage \<Rightarrow> fetch_outcome" where
  "respondWith p s =
     (case p (new_world s) of (r, w, later) \<Rightarrow>
        (case deliver r w of (a, w') \<Rightarrow>
           \<lparr>answer = RespondWith a, storage_at_answer = stored w',
            storage_settled = stored (later w')\<rparr>))"

definition not_intercepted :: "storage \<Rightarrow> fetch_outcome" where
  "not_intercepted s = \<lparr>answer = NotIntercepted, storage_at_answer = s, storage_settled = s\<rparr>"

subsection \<open>The worker\<close>

definition CACHE_NAME :: string where
  "CACHE_NAME = ''angaza-creatives-v1''"

definition urlsToCache :: "string list" where
  "urlsToCache =
     [''/'', ''/static/css/style.css'', ''/static/js/main.js'', ''/static/images/logo.jpeg'']"

text \<open>
  The install listener. The call of \<^verbatim>\<open>self.skipWaiting()\<close> after \<^verbatim>\<open>event.waitUntil\<close>
  touches neither the storage nor the promise.
\<close>

definition install :: "host \<Rightarrow> storage \<Rightarrow> unit settled \<times> storage" where
  "install h =
     waitUntil
       (catch_p
         (then_p (caches_open CACHE_NAME) (\<lambda>cache. cache_addAll h cache urlsToCache))
         (\<lambda>err. resolve ()))"

text \<open>
  The activate listener. The callback of \<^verbatim>\<open>map\<close> returns the promise of the deletion for a
  name other than \<open>CACHE_NAME\<close> and \<^verbatim>\<open>undefined\<close> (here \<open>None\<close>) for \<open>CACHE_NAME\<close> itself.
  The call of \<^verbatim>\<open>self.clients.claim()\<close> touches neither the storage nor the promise.
\<close>

definition delete_old :: "host \<Rightarrow> string \<Rightarrow> bool option promise" where
  "delete_old h cacheName =
     (if cacheName \<noteq> CACHE_NAME
      then then_p (caches_delete h cacheName) (\<lambda>deleted. resolve (Some deleted))
      else resolve None)"

definition activate :: "host \<Rightarrow> storage \<Rightarrow> bool option list settled \<times> storage" where
  "activate h =
     waitUntil
       (then_p caches_keys (\<lambda>cacheNames. Promise_all (map (delete_old h) cacheNames)))"

text \<open>
  The fetch listener either returns without calling \<^verbatim>\<open>event.respondWith\<close>, and the
  browser handles the request as if there were no worker, or answers with the settlement
  of a promise for a response; \<open>None\<close> in it is \<^verbatim>\<open>undefined\<close>, no response.
  \<open>network_first\<close> is the callback of \<^verbatim>\<open>.then\<close>, \<open>cache_fallback\<close> the callback of
  \<^verbatim>\<open>.catch\<close>.
\<close>

definition network_first :: "host \<Rightarrow> request \<Rightarrow> response_object \<Rightarrow> response_object option promise" where
  "network_first h req response =
     then_p (clone response) (\<lambda>responseClone.
       then_p
         (if status response = 200 \<and> str_includes (url req) ''/static/''
          then detach (then_p (caches_open CACHE_NAME) (\<lambda>cache.
                 detach (cache_put h cache req responseClone)))
          else resolve ())
         (\<lambda>_. resolve (Some response)))"

definition cache_fallback :: "host \<Rightarrow> request \<Rightarrow> response_object option promise" where
  "cache_fallback h req =
     then_p (caches_match req) (\<lambda>response.
       case response of
         Some r \<Rightarrow> resolve (Some r)
       | None \<Rightarrow>
           if mode req = ''navigate'' then caches_match (url_request h ''/'')
           else resolve None)"

definition fetch_handler :: "host \<Rightarrow> request \<Rightarrow> storage \<Rightarrow> fetch_outcome" where
  "fetch_handler h req =
     (if req_method req \<noteq> ''GET'' then not_intercepted
      else if startsWith (url req) ''chrome-extension://'' then not_intercepted
      else respondWith
        (catch_p (then_p (net_fetch h req) (network_first h req))
                 (\<lambda>_. cache_fallback h req)))"

text \<open>The answer of the fetch listener and the storage once all its work is done.\<close>

definition fetch_listener :: "host \<Rightarrow> request \<Rightarrow> storage \<Rightarrow> reply \<times> storage" where
  "fetch_listener h req s =
     (answer (fetch_handler h req s), storage_settled (fetch_handler h req s))"

subsection \<open>Notions used to state the properties\<close>

text \<open>
  The path component of an absolute URL: what follows the scheme and the authority, up to
  the query or the fragment. The worker never computes it; it is here to say where in a URL
  the text \<^verbatim>\<open>/static/\<close> occurs.
\<close>

fun strip_scheme :: "string \<Rightarrow> string" where
  "strip_scheme [] = []"
| "strip_scheme (c # cs) =
     (if startsWith (c # cs) ''://'' then drop 3 (c # cs) else strip_scheme cs)"

definition url_pathname :: "string \<Rightarrow> string" where
  "url_pathname u =
     takeWhile (\<lambda>c. c \<noteq> CHR ''?'' \<and> c \<noteq> CHR ''#'')
       (dropWhile (\<lambda>c. c \<noteq> CHR ''/'') (strip_scheme u))"

text \<open>
  The offline fallback in the specification's words: the request, and for a navigation the
  root document, are looked up in the bucket of the current generation and nowhere else.
\<close>

definition spec_offline_reply :: "host \<Rightarrow> request \<Rightarrow> storage \<Rightarrow> response option" where
  "spec_offline_reply h req s =
     (case cache_lookup req (bucket s CACHE_NAME) of
        Some r \<Rightarrow> Some r
      | None \<Rightarrow>
          if mode req = ''navigate''
          then cache_lookup (url_request h ''/'') (bucket s CACHE_NAME)
          else None)"

text \<open>What \<open>fetch_seeds\<close> requires of one seed request for the batch to go through.\<close>

definition seed_ok :: "host \<Rightarrow> request \<Rightarrow> bool" where
  "seed_ok h q = (case network h q of
       None \<Rightarrow> False
     | Some r \<Rightarrow>
         200 \<le> status r \<and> status r \<le> 299 \<and> status r \<noteq> 206 \<and> \<not> put_rejects h q)"

subsection \<open>Example hosts\<close>

definition no_refusal :: "'a \<Rightarrow> bool" where
  "no_refusal x = False"

definition refuse_all :: "'a \<Rightarrow> bool" where
  "refuse_all x = True"

definition refuse_v0 :: "string \<Rightarrow> bool" where
  "refuse_v0 name = (name = ''angaza-creatives-v0'')"

definition net_up :: "request \<Rightarrow> response option" where
  "net_up q = Some \<lparr>status = 200, body = ''fresh''\<rparr>"

definition net_not_found :: "request \<Rightarrow> response option" where
  "net_not_found q = Some \<lparr>status = 404, body = ''not found''\<rparr>"

definition net_partial :: "request \<Rightarrow> response option" where
  "net_partial q = Some \<lparr>status = 206, body = ''part''\<rparr>"

definition net_down :: "request \<Rightarrow> response option" where
  "net_down q = None"

definition net_without_logo :: "request \<Rightarrow> response option" where
  "net_without_logo q =
     (if url q = ''https://shine.example/static/images/logo.jpeg'' then None
      else Some \<lparr>status = 200, body = ''seed''\<rparr>)"

definition host_online :: host where
  "host_online = \<lparr>origin = ''https://shine.example'', network = net_up,
     delete_rejects = no_refusal, put_rejects = no_refusal\<rparr>"

definition host_not_found :: host where
  "host_not_found = \<lparr>origin = ''https://shine.example'', network = net_not_found,
     delete_rejects = no_refusal, put_rejects = no_refusal\<rparr>"

definition host_partial :: host where
  "host_partial = \<lparr>origin = ''https://shine.example'', network = net_partial,
     delete_rejects = no_refusal, put_rejects = no_refusal\<rparr>"

definition host_offline :: host where
  "host_offline = \<lparr>origin = ''https://shine.example'', network = net_down,
     delete_rejects = no_refusal, put_rejects = no_refusal\<rparr>"

definition host_storage_full :: host where
  "host_storage_full = \<lparr>origin = ''https://shine.example'', network = net_up,
     delete_rejects = no_refusal, put_rejects = refuse_all\<rparr>"

definition host_stuck_delete :: host where
  "host_stuck_delete = \<lparr>origin = ''https://shine.example'', network = net_up,
     delete_rejects = refuse_v0, put_rejects = no_refusal\<rparr>"

definition host_without_logo :: host where
  "host_without_logo = \<lparr>origin = ''https://shine.example'', network = net_without_logo,
     delete_rejects = no_refusal, put_rejects = no_refusal\<rparr>"

section \<open>Properties\<close>

lemmas promise_defs =
  resolve_def reject_def then_p_def catch_p_def finish_def detach_def Promise_all_def
  new_world_def new_response_def waitUntil_def deliver_def respondWith_def
  not_intercepted_def content_def

lemmas host_defs =
  net_fetch_def clone_def url_request_def open_bucket_def caches_open_def caches_keys_def
  caches_delete_def strip_fragment_def request_matches_def cache_lookup_def caches_match_def
  put_entry_def update_bucket_def cache_put_def cache_addAll_def bucket_def

lemmas worker_defs =
  CACHE_NAME_def urlsToCache_def install_def delete_old_def activate_def network_first_def
  cache_fallback_def fetch_handler_def fetch_listener_def startsWith_def

lemmas example_defs =
  no_refusal_def refuse_all_def refuse_v0_def net_up_def net_not_found_def net_partial_def
  net_down_def net_without_logo_def host_online_def host_not_found_def host_partial_def
  host_offline_def host_storage_full_def host_stuck_delete_def host_without_logo_def

subsection \<open>The cache storage\<close>

lemma find_after_filter:
  "find P (filter (\<lambda>e. \<not> P e) c @ [x]) = (if P x then Some x else None)"
  by (induction c) auto

lemma lookup_put_entry:
  "req_method req = ''GET'' \<Longrightarrow> cache_lookup req (put_entry req r c) = Some r"
  by (simp add: cache_lookup_def put_entry_def find_after_filter request_matches_def)

lemma bucket_update_bucket:
  "bucket (update_bucket name f s) name = (if name \<in> set (map fst s) then f (bucket s name) else [])"
  by (induction s) (auto simp: bucket_def update_bucket_def)

lemma map_of_update_bucket_other:
  "n \<noteq> name \<Longrightarrow> map_of (update_bucket name f s) n = map_of s n"
  by (induction s) (auto simp: update_bucket_def)

lemma map_of_open_bucket_other:
  "n \<noteq> name \<Longrightarrow> map_of (open_bucket name s) n = map_of s n"
  by (simp add: open_bucket_def map_add_def split: option.splits)

lemma bucket_open_bucket:
  "bucket (open_bucket name s) name = bucket s name"
proof (cases "name \<in> set (map fst s)")
  case True
  then show ?thesis by (simp add: open_bucket_def)
next
  case False
  then have "map_of s name = None" by (simp add: map_of_eq_None_iff)
  with False show ?thesis by (simp add: open_bucket_def bucket_def map_add_def)
qed

lemma name_in_open_bucket:
  "name \<in> set (map fst (open_bucket name s))"
  by (simp add: open_bucket_def)

lemma at_most_one_named:
  "distinct (map fst s) \<Longrightarrow> length (filter (\<lambda>b. fst b = k) s) \<le> 1"
proof (induction s)
  case Nil
  then show ?case by simp
next
  case (Cons b s)
  show ?case
  proof (cases "fst b = k")
    case True
    with Cons.prems have "k \<notin> fst ` set s" by simp
    then have "\<forall>x\<in>set s. fst x \<noteq> k" by force
    then have "filter (\<lambda>b. fst b = k) s = []" by (simp add: filter_empty_conv)
    with True show ?thesis by simp
  next
    case False
    with Cons show ?thesis by simp
  qed
qed

lemma storage_lookup_current_only:
  assumes "length s \<le> 1" "\<forall>b\<in>set s. fst b = CACHE_NAME"
  shows "storage_lookup q s = cache_lookup q (bucket s CACHE_NAME)"
proof (cases s)
  case Nil
  then show ?thesis by (simp add: bucket_def cache_lookup_def)
next
  case (Cons b s')
  with assms have "s' = []" "fst b = CACHE_NAME" by auto
  with Cons show ?thesis by (cases b) (auto simp: bucket_def split: option.splits)
qed

text \<open>An origin has no fragment, and neither has a seed URL.\<close>

lemma strip_fragment_plain:
  "CHR ''#'' \<notin> set u \<Longrightarrow> strip_fragment u = u"
  by (auto simp: strip_fragment_def takeWhile_eq_all_conv)

lemma seed_matches_iff:
  assumes "CHR ''#'' \<notin> set (origin h)" "CHR ''#'' \<notin> set u" "CHR ''#'' \<notin> set u'"
  shows "request_matches (url_request h u) (url_request h u') \<longleftrightarrow> u = u'"
  using assms by (simp add: request_matches_def url_request_def strip_fragment_plain)

lemma lookup_seed:
  assumes "CHR ''#'' \<notin> set (origin h)" "\<forall>u\<in>set us. CHR ''#'' \<notin> set u" "u \<in> set us"
  shows "cache_lookup (url_request h u) (map (\<lambda>q. (q, f q)) (map (url_request h) us))
       = Some (f (url_request h u))"
  using assms(2,3)
proof (induction us)
  case Nil
  then show ?case by simp
next
  case (Cons a us)
  have "request_matches (url_request h u) (url_request h a) \<longleftrightarrow> u = a"
    using Cons.prems assms(1) by (intro seed_matches_iff) auto
  with Cons show ?case by (auto simp: cache_lookup_def)
qed

subsection \<open>The three listeners, unfolded\<close>

lemma install_run:
  "install h s =
     (Fulfilled (),
      case fetch_seeds h (map (url_request h) urlsToCache) of
        None \<Rightarrow> open_bucket CACHE_NAME s
      | Some es \<Rightarrow>
          update_bucket CACHE_NAME (\<lambda>c. fold (\<lambda>e. put_entry (fst e) (snd e)) es c)
            (open_bucket CACHE_NAME s))"
  by (simp add: install_def waitUntil_def new_world_def catch_p_def then_p_def caches_open_def
      cache_addAll_def resolve_def split: option.splits)

lemma fetch_seeds_unreachable:
  "\<exists>q\<in>set qs. network h q = None \<Longrightarrow> fetch_seeds h qs = None"
  by (induction qs) (auto split: option.splits)

lemma fetch_seeds_eq:
  "fetch_seeds h qs =
     (if list_all (seed_ok h) qs then Some (map (\<lambda>q. (q, the (network h q))) qs) else None)"
  by (induction qs) (auto simp: seed_ok_def split: option.splits)

lemma delete_old_run:
  "delete_old h n w = (r, w', later) \<Longrightarrow>
     later = id \<and> used w' = used w \<and> fresh w' = fresh w \<and>
     stored w' = filter (\<lambda>b. \<not> (fst b = n \<and> fst b \<noteq> CACHE_NAME \<and> \<not> delete_rejects h (fst b))) (stored w) \<and>
     (fulfilled r \<longleftrightarrow> (n \<noteq> CACHE_NAME \<longrightarrow> \<not> delete_rejects h n))"
  by (auto simp: delete_old_def then_p_def caches_delete_def resolve_def
      split: if_splits intro: filter_cong)

lemma run_all_delete_old:
  "run_all (map (delete_old h) ns) w = (rs, w', later) \<Longrightarrow>
     later = id \<and>
     stored w' = filter (\<lambda>b. \<not> (fst b \<in> set ns \<and> fst b \<noteq> CACHE_NAME \<and> \<not> delete_rejects h (fst b))) (stored w) \<and>
     (fulfilled (collect rs) \<longleftrightarrow> (\<forall>n\<in>set ns. n \<noteq> CACHE_NAME \<longrightarrow> \<not> delete_rejects h n))"
proof (induction ns arbitrary: w rs w' later)
  case Nil
  then show ?case by simp
next
  case (Cons n ns)
  obtain r w1 l1 where 1: "delete_old h n w = (r, w1, l1)" by (cases "delete_old h n w")
  obtain rs' w2 l2 where 2: "run_all (map (delete_old h) ns) w1 = (rs', w2, l2)"
    by (cases "run_all (map (delete_old h) ns) w1")
  from Cons.prems 1 2 have eq: "rs = r # rs'" "w' = w2" "later = l2 \<circ> l1" by auto
  note a = delete_old_run [OF 1]
  note b = Cons.IH [OF 2]
  have l: "later = id" using eq a b by (simp add: fun_eq_iff)
  have s: "stored w' = filter (\<lambda>b. \<not> (fst b \<in> set (n # ns) \<and> fst b \<noteq> CACHE_NAME \<and> \<not> delete_rejects h (fst b))) (stored w)"
    using eq a b by (auto intro: filter_cong)
  have f: "fulfilled (collect rs) \<longleftrightarrow> (\<forall>m\<in>set (n # ns). m \<noteq> CACHE_NAME \<longrightarrow> \<not> delete_rejects h m)"
    using eq a b by (cases r; cases "collect rs'") auto
  from l s f show ?case by blast
qed

lemma activate_run:
  "activate h s =
     (case run_all (map (delete_old h) (map fst s)) (new_world s) of
        (rs, w', later) \<Rightarrow> (collect rs, stored (later w')))"
  by (simp add: activate_def waitUntil_def then_p_def caches_keys_def Promise_all_def
      new_world_def split: prod.splits)

lemma activate_storage:
  "snd (activate h s) = filter (\<lambda>b. fst b = CACHE_NAME \<or> delete_rejects h (fst b)) s"
proof -
  obtain rs w' later where r: "run_all (map (delete_old h) (map fst s)) (new_world s) = (rs, w', later)"
    by (cases "run_all (map (delete_old h) (map fst s)) (new_world s)")
  from run_all_delete_old [OF r]
  have "later = id"
    and "stored w' = filter (\<lambda>b. \<not> (fst b \<in> set (map fst s) \<and> fst b \<noteq> CACHE_NAME \<and> \<not> delete_rejects h (fst b))) s"
    by (simp_all add: new_world_def)
  moreover have "filter (\<lambda>b. \<not> (fst b \<in> set (map fst s) \<and> fst b \<noteq> CACHE_NAME \<and> \<not> delete_rejects h (fst b))) s
      = filter (\<lambda>b. fst b = CACHE_NAME \<or> delete_rejects h (fst b)) s"
    by (rule filter_cong) auto
  ultimately show ?thesis using r by (simp add: activate_run)
qed

lemma activate_fulfilled_iff:
  "fulfilled (fst (activate h s)) \<longleftrightarrow>
     (\<forall>n\<in>set (map fst s). n \<noteq> CACHE_NAME \<longrightarrow> \<not> delete_rejects h n)"
proof -
  obtain rs w' later where r: "run_all (map (delete_old h) (map fst s)) (new_world s) = (rs, w', later)"
    by (cases "run_all (map (delete_old h) (map fst s)) (new_world s)")
  from run_all_delete_old [OF r] r show ?thesis by (simp add: activate_run)
qed

lemma content_object:
  "status r = n \<Longrightarrow> content \<lparr>status = n, body = body r, ident = i\<rparr> = r"
  by (auto simp: content_def)

lemma fetch_online:
  assumes "req_method req = ''GET''" "\<not> startsWith (url req) ''chrome-extension://''"
    and "network h req = Some r"
  shows "fetch_handler h req s =
     \<lparr>answer = RespondWith (Fulfilled (Some r)),
      storage_at_answer = s,
      storage_settled =
        (if status r = 200 \<and> str_includes (url req) ''/static/''
         then (if put_rejects h req then open_bucket CACHE_NAME s
               else update_bucket CACHE_NAME (put_entry req r) (open_bucket CACHE_NAME s))
         else s)\<rparr>"
  using assms
  by (simp add: fetch_handler_def respondWith_def deliver_def catch_p_def then_p_def
      net_fetch_def network_first_def clone_def new_response_def new_world_def content_object
      resolve_def detach_def finish_def caches_open_def cache_put_def)

lemma fetch_offline:
  assumes "req_method req = ''GET''" "\<not> startsWith (url req) ''chrome-extension://''"
    and "network h req = None"
  shows "fetch_handler h req s =
     \<lparr>answer = RespondWith (Fulfilled
        (case storage_lookup req s of
           Some r \<Rightarrow> Some r
         | None \<Rightarrow> if mode req = ''navigate'' then storage_lookup (url_request h ''/'') s else None)),
      storage_at_answer = s,
      storage_settled = s\<rparr>"
  using assms
  by (simp add: fetch_handler_def respondWith_def deliver_def catch_p_def then_p_def
      net_fetch_def cache_fallback_def caches_match_def new_response_def new_world_def
      content_object resolve_def reject_def split: option.splits)

lemma fetch_listener_online:
  assumes "req_method req = ''GET''" "\<not> startsWith (url req) ''chrome-extension://''"
    and "network h req = Some r"
  shows "fetch_listener h req s =
     (RespondWith (Fulfilled (Some r)),
      if status r = 200 \<and> str_includes (url req) ''/static/''
      then (if put_rejects h req then open_bucket CACHE_NAME s
            else update_bucket CACHE_NAME (put_entry req r) (open_bucket CACHE_NAME s))
      else s)"
  by (simp add: fetch_listener_def fetch_online [OF assms])

lemma fetch_listener_offline:
  assumes "req_method req = ''GET''" "\<not> startsWith (url req) ''chrome-extension://''"
    and "network h req = None"
  shows "fetch_listener h req s =
     (RespondWith (Fulfilled
        (case storage_lookup req s of
           Some r \<Rightarrow> Some r
         | None \<Rightarrow> if mode req = ''navigate'' then storage_lookup (url_request h ''/'') s else None)),
      s)"
  by (simp add: fetch_listener_def fetch_offline [OF assms])

subsection \<open>Requests the worker does not intercept\<close>

text \<open>
  C9. A request whose method is not GET is not intercepted: the listener answers nothing,
  whatever the storage holds (so nothing is looked up), and leaves the storage as it was
  (so nothing is written).
\<close>

theorem non_get_bypass:
  assumes "req_method req \<noteq> ''GET''"
  shows "fetch_listener h req s = (NotIntercepted, s)"
  using assms by (simp add: fetch_listener_def fetch_handler_def not_intercepted_def)

theorem non_get_bypass_witness:
  "fetch_listener host_online
     \<lparr>req_method = ''POST'', url = ''https://shine.example/static/css/style.css'', mode = ''cors''\<rparr>
     [(CACHE_NAME, [])]
   = (NotIntercepted, [(CACHE_NAME, [])])"
  using non_get_bypass [of "\<lparr>req_method = ''POST'', url = ''https://shine.example/static/css/style.css'', mode = ''cors''\<rparr>"]
  by simp

subsection \<open>Activation\<close>

text \<open>
  C1. Once activation has completed (the promise of the activate listener is fulfilled),
  the storage holds at most one bucket and only the bucket named \<open>CACHE_NAME\<close>: whatever
  buckets existed before, every bucket with another name has been deleted, and the bucket of
  the current generation, if there was one, is kept as it was. The cache storage maps names
  to caches, so the names of the buckets that exist are distinct.
\<close>

theorem activate_leaves_current_generation:
  assumes "distinct (map fst s)" and "fulfilled (fst (activate h s))"
  shows "snd (activate h s) = filter (\<lambda>b. fst b = CACHE_NAME) s \<and>
         length (snd (activate h s)) \<le> 1 \<and>
         (\<forall>b\<in>set (snd (activate h s)). fst b = CACHE_NAME)"
proof -
  from assms(2) have ok: "\<forall>n\<in>set (map fst s). n \<noteq> CACHE_NAME \<longrightarrow> \<not> delete_rejects h n"
    using activate_fulfilled_iff [of h s] by blast
  have "filter (\<lambda>b. fst b = CACHE_NAME \<or> delete_rejects h (fst b)) s
        = filter (\<lambda>b. fst b = CACHE_NAME) s"
    using ok by (intro filter_cong) auto
  then have eq: "snd (activate h s) = filter (\<lambda>b. fst b = CACHE_NAME) s"
    by (simp add: activate_storage)
  from eq at_most_one_named [OF assms(1), of CACHE_NAME] show ?thesis by simp
qed

theorem activate_leaves_current_generation_witness:
  "snd (activate host_online
     [(''angaza-creatives-v0'', []),
      (''angaza-creatives-beta'', []),
      (''angaza-creatives-v1'',
         [(\<lparr>req_method = ''GET'', url = ''https://shine.example/'', mode = ''navigate''\<rparr>,
           \<lparr>status = 200, body = ''home''\<rparr>)])])
   = [(''angaza-creatives-v1'',
         [(\<lparr>req_method = ''GET'', url = ''https://shine.example/'', mode = ''navigate''\<rparr>,
           \<lparr>status = 200, body = ''home''\<rparr>)])]"
proof -
  let ?s = "[(''angaza-creatives-v0'', []),
      (''angaza-creatives-beta'', []),
      (''angaza-creatives-v1'',
         [(\<lparr>req_method = ''GET'', url = ''https://shine.example/'', mode = ''navigate''\<rparr>,
           \<lparr>status = 200, body = ''home''\<rparr>)])]"
  have d: "distinct (map fst ?s)" by simp
  have "fst (activate host_online ?s) = Fulfilled [Some True, Some True, None]"
    by (simp add: promise_defs host_defs worker_defs example_defs)
  then have f: "fulfilled (fst (activate host_online ?s))" by simp
  from activate_leaves_current_generation [OF d f] show ?thesis
    by (simp add: CACHE_NAME_def)
qed

text \<open>
  C2, as the specification states it, fails: when the deletion of one stale bucket is
  rejected, the promise of the activate listener is rejected. Below, the deletion of
  \<^verbatim>\<open>angaza-creatives-v0\<close> is refused; the other stale bucket is still deleted, and the
  promise handed to \<^verbatim>\<open>event.waitUntil\<close> is rejected.
\<close>

theorem activate_rejects_on_failed_deletion:
  "activate host_stuck_delete
     [(''angaza-creatives-v0'', []), (''angaza-creatives-beta'', []), (''angaza-creatives-v1'', [])]
   = (Rejected StorageError, [(''angaza-creatives-v0'', []), (''angaza-creatives-v1'', [])])"
  by (simp add: promise_defs host_defs worker_defs example_defs)

text \<open>
  C2, amended. The deletion of every stale bucket is started, and a failed deletion does not
  abort the others: after activation the storage holds the bucket of the current generation
  and exactly those stale buckets whose own deletion was rejected. The promise of the
  activate listener is fulfilled if and only if no deletion is rejected; with a rejected
  deletion it is rejected.
\<close>

theorem activate_deletions_independent:
  "snd (activate h s) = filter (\<lambda>b. fst b = CACHE_NAME \<or> delete_rejects h (fst b)) s \<and>
   (fulfilled (fst (activate h s)) \<longleftrightarrow>
      (\<forall>n\<in>set (map fst s). n \<noteq> CACHE_NAME \<longrightarrow> \<not> delete_rejects h n))"
  using activate_storage [of h s] activate_fulfilled_iff [of h s] by blast

theorem activate_deletions_independent_witness:
  "snd (activate host_stuck_delete
     [(''angaza-creatives-v0'', []), (''angaza-creatives-beta'', []), (''angaza-creatives-v1'', [])])
   = [(''angaza-creatives-v0'', []), (''angaza-creatives-v1'', [])] \<and>
   \<not> fulfilled (fst (activate host_stuck_delete
     [(''angaza-creatives-v0'', []), (''angaza-creatives-beta'', []), (''angaza-creatives-v1'', [])])) \<and>
   snd (activate host_online
     [(''angaza-creatives-v0'', []), (''angaza-creatives-beta'', []), (''angaza-creatives-v1'', [])])
   = [(''angaza-creatives-v1'', [])] \<and>
   fulfilled (fst (activate host_online
     [(''angaza-creatives-v0'', []), (''angaza-creatives-beta'', []), (''angaza-creatives-v1'', [])]))"
  using activate_deletions_independent [of host_stuck_delete
     "[(''angaza-creatives-v0'', []), (''angaza-creatives-beta'', []), (''angaza-creatives-v1'', [])]"]
    activate_deletions_independent [of host_online
     "[(''angaza-creatives-v0'', []), (''angaza-creatives-beta'', []), (''angaza-creatives-v1'', [])]"]
  by (simp add: CACHE_NAME_def example_defs)

subsection \<open>Installation\<close>

text \<open>
  C6. The promise of the install listener is always fulfilled, whatever the seed fetches
  and the storage do. When the fetch of one seed asset fails, the seed fails as a group:
  the listener has opened (created, if absent) the bucket and stored nothing in it, not
  even the assets that could be fetched.
\<close>

theorem install_never_rejects:
  "fst (install h s) = Fulfilled () \<and>
   ((\<exists>u\<in>set urlsToCache. network h (url_request h u) = None) \<longrightarrow>
      snd (install h s) = open_bucket CACHE_NAME s)"
proof -
  have "fetch_seeds h (map (url_request h) urlsToCache) = None"
    if "\<exists>u\<in>set urlsToCache. network h (url_request h u) = None"
    using that by (intro fetch_seeds_unreachable) auto
  then show ?thesis by (auto simp: install_run)
qed

theorem install_never_rejects_witness:
  "install host_without_logo [] = (Fulfilled (), [(''angaza-creatives-v1'', [])])"
proof -
  have u: "\<exists>u\<in>set urlsToCache. network host_without_logo (url_request host_without_logo u) = None"
    by (simp add: urlsToCache_def url_request_def example_defs)
  from install_never_rejects [of host_without_logo "[]"] u
  have "fst (install host_without_logo []) = Fulfilled ()"
    and "snd (install host_without_logo []) = open_bucket CACHE_NAME []"
    by blast+
  then show ?thesis by (simp add: prod_eq_iff open_bucket_def CACHE_NAME_def)
qed

text \<open>
  C8, as the specification states it, fails: the bucket does not hold every seed asset that
  could be fetched. With the logo unreachable and the three other assets reachable, two
  installs leave the bucket empty; the root document, fetched with status 200, is not in it.
\<close>

theorem install_twice_drops_fetched_seeds:
  "network host_without_logo (url_request host_without_logo ''/'')
     = Some \<lparr>status = 200, body = ''seed''\<rparr> \<and>
   snd (install host_without_logo (snd (install host_without_logo [])))
     = [(''angaza-creatives-v1'', [])] \<and>
   cache_lookup (url_request host_without_logo ''/'')
     (bucket (snd (install host_without_logo (snd (install host_without_logo [])))) CACHE_NAME)
     = None"
proof -
  have u: "fetch_seeds host_without_logo (map (url_request host_without_logo) urlsToCache) = None"
    by (simp add: urlsToCache_def url_request_def example_defs)
  have 1: "snd (install host_without_logo []) = [(''angaza-creatives-v1'', [])]"
    by (simp add: install_run u open_bucket_def CACHE_NAME_def)
  have 2: "snd (install host_without_logo [(''angaza-creatives-v1'', [])])
      = [(''angaza-creatives-v1'', [])]"
    by (simp add: install_run u open_bucket_def CACHE_NAME_def)
  show ?thesis
    by (simp add: 1 2) (simp add: url_request_def example_defs bucket_def cache_lookup_def CACHE_NAME_def)
qed

text \<open>
  C8, amended. Install is idempotent: run twice against an empty storage it leaves what one
  run leaves, which is exactly one bucket, named \<open>CACHE_NAME\<close>. The seed is all or nothing:
  the bucket holds the response of every seed asset when all of them were fetched with a
  status in 200..299 other than 206 and accepted by the storage, and it is empty when one of
  them was not. The origin of the worker is an origin: it has no fragment.
\<close>

theorem install_idempotent:
  assumes "CHR ''#'' \<notin> set (origin h)"
  shows "snd (install h (snd (install h []))) = snd (install h []) \<and>
   map fst (snd (install h [])) = [CACHE_NAME] \<and>
   ((\<forall>u\<in>set urlsToCache. seed_ok h (url_request h u)) \<longrightarrow>
      (\<forall>u\<in>set urlsToCache.
         cache_lookup (url_request h u) (bucket (snd (install h [])) CACHE_NAME)
           = network h (url_request h u))) \<and>
   (\<not> (\<forall>u\<in>set urlsToCache. seed_ok h (url_request h u)) \<longrightarrow>
      bucket (snd (install h [])) CACHE_NAME = [])"
proof (cases "list_all (seed_ok h) (map (url_request h) urlsToCache)")
  case False
  then have none: "fetch_seeds h (map (url_request h) urlsToCache) = None"
    by (simp add: fetch_seeds_eq)
  have s1: "snd (install h []) = [(CACHE_NAME, [])]"
    by (simp add: install_run none open_bucket_def)
  have s2: "snd (install h [(CACHE_NAME, [])]) = [(CACHE_NAME, [])]"
    by (simp add: install_run none open_bucket_def)
  from False have "\<not> (\<forall>u\<in>set urlsToCache. seed_ok h (url_request h u))"
    by (simp add: list_all_iff)
  with s1 s2 show ?thesis by (simp add: bucket_def del: ball_simps)
next
  case True
  let ?es = "map (\<lambda>q. (q, the (network h q))) (map (url_request h) urlsToCache)"
  from True have some: "fetch_seeds h (map (url_request h) urlsToCache) = Some ?es"
    by (simp add: fetch_seeds_eq)
  have plain: "\<forall>u\<in>set urlsToCache. CHR ''#'' \<notin> set u"
    by (simp add: urlsToCache_def)
  have f0: "fold (\<lambda>e. put_entry (fst e) (snd e)) ?es [] = ?es"
    using assms by (simp add: urlsToCache_def put_entry_def seed_matches_iff)
  have f1: "fold (\<lambda>e. put_entry (fst e) (snd e)) ?es ?es = ?es"
    using assms by (simp add: urlsToCache_def put_entry_def seed_matches_iff)
  have s1: "snd (install h []) = [(CACHE_NAME, ?es)]"
    using f0 by (simp add: install_run some open_bucket_def update_bucket_def)
  have s2: "snd (install h [(CACHE_NAME, ?es)]) = [(CACHE_NAME, ?es)]"
    using f1 by (simp add: install_run some open_bucket_def update_bucket_def)
  from True have ok: "\<forall>u\<in>set urlsToCache. seed_ok h (url_request h u)"
    by (simp add: list_all_iff)
  have look: "cache_lookup (url_request h u) ?es = network h (url_request h u)"
    if "u \<in> set urlsToCache" for u
  proof -
    from ok that obtain r where "network h (url_request h u) = Some r"
      by (auto simp: seed_ok_def split: option.splits)
    with lookup_seed [OF assms plain that, of "\<lambda>q. the (network h q)"] show ?thesis by simp
  qed
  from s1 s2 ok look show ?thesis by (simp add: bucket_def)
qed

theorem install_idempotent_witness:
  "snd (install host_online (snd (install host_online []))) = snd (install host_online []) \<and>
   cache_lookup \<lparr>req_method = ''GET'', url = ''https://shine.example/static/js/main.js'', mode = ''cors''\<rparr>
     (bucket (snd (install host_online [])) CACHE_NAME)
   = Some \<lparr>status = 200, body = ''fresh''\<rparr> \<and>
   bucket (snd (install host_partial [])) CACHE_NAME = []"
proof -
  have o: "CHR ''#'' \<notin> set (origin host_online)" "CHR ''#'' \<notin> set (origin host_partial)"
    by (simp_all add: example_defs)
  have ok: "\<forall>u\<in>set urlsToCache. seed_ok host_online (url_request host_online u)"
    by (simp add: urlsToCache_def seed_ok_def url_request_def example_defs)
  have "\<not> seed_ok host_partial (url_request host_partial ''/'')"
    by (simp add: seed_ok_def example_defs)
  then have no: "\<not> (\<forall>u\<in>set urlsToCache. seed_ok host_partial (url_request host_partial u))"
    by (simp add: urlsToCache_def)
  have m: "''/static/js/main.js'' \<in> set urlsToCache" by (simp add: urlsToCache_def)
  from install_idempotent [OF o(1)] ok m
  have "snd (install host_online (snd (install host_online []))) = snd (install host_online [])"
    and "cache_lookup (url_request host_online ''/static/js/main.js'')
           (bucket (snd (install host_online [])) CACHE_NAME)
         = network host_online (url_request host_online ''/static/js/main.js'')"
    by blast+
  moreover from install_idempotent [OF o(2)] no
  have "bucket (snd (install host_partial [])) CACHE_NAME = []" by blast
  ultimately show ?thesis by (simp add: url_request_def example_defs)
qed

subsection \<open>Requests answered from the network\<close>

text \<open>
  C3. For a GET request that the worker sends over the network (its URL is not of the
  extension pseudo-scheme), to a URL of the static-path convention (it contains
  \<^verbatim>\<open>/static/\<close>), answered by the network with status 200: the reply is the network's
  response, whatever the storage held for that request, and, the storage accepting the
  store, the bucket of the current generation afterwards answers the request with an entry
  equal to that response, body included.
\<close>

theorem fresh_response_returned_and_stored:
  assumes "req_method req = ''GET''"
    and "\<not> startsWith (url req) ''chrome-extension://''"
    and "network h req = Some r" and "status r = 200"
    and "str_includes (url req) ''/static/''"
    and "\<not> put_rejects h req"
  shows "fst (fetch_listener h req s) = RespondWith (Fulfilled (Some r)) \<and>
         cache_lookup req (bucket (snd (fetch_listener h req s)) CACHE_NAME) = Some r \<and>
         map_option body (cache_lookup req (bucket (snd (fetch_listener h req s)) CACHE_NAME))
           = Some (body r)"
  using assms
  by (simp add: fetch_listener_online bucket_update_bucket name_in_open_bucket lookup_put_entry
      del: set_map)

theorem fresh_response_returned_and_stored_witness:
  "fst (fetch_listener host_online
          \<lparr>req_method = ''GET'', url = ''https://shine.example/static/css/style.css'', mode = ''no-cors''\<rparr>
          [(''angaza-creatives-v1'',
            [(\<lparr>req_method = ''GET'', url = ''https://shine.example/static/css/style.css'', mode = ''cors''\<rparr>,
              \<lparr>status = 200, body = ''stale''\<rparr>)])])
   = RespondWith (Fulfilled (Some \<lparr>status = 200, body = ''fresh''\<rparr>)) \<and>
   cache_lookup
     \<lparr>req_method = ''GET'', url = ''https://shine.example/static/css/style.css'', mode = ''no-cors''\<rparr>
     (bucket (snd (fetch_listener host_online
          \<lparr>req_method = ''GET'', url = ''https://shine.example/static/css/style.css'', mode = ''no-cors''\<rparr>
          [(''angaza-creatives-v1'',
            [(\<lparr>req_method = ''GET'', url = ''https://shine.example/static/css/style.css'', mode = ''cors''\<rparr>,
              \<lparr>status = 200, body = ''stale''\<rparr>)])])) CACHE_NAME)
   = Some \<lparr>status = 200, body = ''fresh''\<rparr>"
proof -
  let ?q = "\<lparr>req_method = ''GET'', url = ''https://shine.example/static/css/style.css'', mode = ''no-cors''\<rparr>"
  let ?r = "\<lparr>status = 200, body = ''fresh''\<rparr>"
  have 1: "req_method ?q = ''GET''" by simp
  have 2: "\<not> startsWith (url ?q) ''chrome-extension://''" by (simp add: startsWith_def)
  have 3: "network host_online ?q = Some ?r" by (simp add: example_defs)
  have 4: "status ?r = 200" by simp
  have 5: "str_includes (url ?q) ''/static/''" by (simp add: startsWith_def)
  have 6: "\<not> put_rejects host_online ?q" by (simp add: example_defs)
  from fresh_response_returned_and_stored [OF 1 2 3 4 5 6] show ?thesis by blast
qed

text \<open>
  C4, as the specification states it, fails: a 200 response to a URL whose path is not a
  static path can be stored. Below the path of the URL is \<^verbatim>\<open>/search\<close>; the text
  \<^verbatim>\<open>/static/\<close> is in the query, and the response is written into the bucket.
\<close>

theorem response_to_dynamic_path_is_stored:
  "url_pathname ''https://shine.example/search?from=/static/'' = ''/search'' \<and>
   fetch_listener host_online
     \<lparr>req_method = ''GET'', url = ''https://shine.example/search?from=/static/'', mode = ''cors''\<rparr>
     []
   = (RespondWith (Fulfilled (Some \<lparr>status = 200, body = ''fresh''\<rparr>)),
      [(''angaza-creatives-v1'',
        [(\<lparr>req_method = ''GET'', url = ''https://shine.example/search?from=/static/'', mode = ''cors''\<rparr>,
          \<lparr>status = 200, body = ''fresh''\<rparr>)])])"
  by (simp add: promise_defs host_defs worker_defs example_defs url_pathname_def)

text \<open>
  C4, amended. For a request the worker sends over the network and a response \<open>r\<close> of the
  network: \<open>r\<close> is what the caller gets, untouched. When the status is not 200, or the URL
  string does not contain \<^verbatim>\<open>/static/\<close> anywhere (path, query or fragment), the storage is
  left exactly as it was. When the status is 200 and the URL string contains \<^verbatim>\<open>/static/\<close>,
  the response is written into the bucket of the current generation (the storage accepting
  the store). No other bucket is ever touched.
\<close>

theorem stored_iff_ok_and_static:
  assumes "req_method req = ''GET''"
    and "\<not> startsWith (url req) ''chrome-extension://''"
    and "network h req = Some r"
  shows "fst (fetch_listener h req s) = RespondWith (Fulfilled (Some r)) \<and>
         (\<not> (status r = 200 \<and> str_includes (url req) ''/static/'') \<longrightarrow>
            snd (fetch_listener h req s) = s) \<and>
         (status r = 200 \<and> str_includes (url req) ''/static/'' \<and> \<not> put_rejects h req \<longrightarrow>
            cache_lookup req (bucket (snd (fetch_listener h req s)) CACHE_NAME) = Some r) \<and>
         (\<forall>n. n \<noteq> CACHE_NAME \<longrightarrow> map_of (snd (fetch_listener h req s)) n = map_of s n)"
  using assms
  by (simp add: fetch_listener_online bucket_update_bucket name_in_open_bucket lookup_put_entry
      map_of_update_bucket_other map_of_open_bucket_other del: set_map)

theorem stored_iff_ok_and_static_witness:
  "fetch_listener host_not_found
     \<lparr>req_method = ''GET'', url = ''https://shine.example/static/css/gone.css'', mode = ''no-cors''\<rparr>
     [(''angaza-creatives-v1'', [])]
   = (RespondWith (Fulfilled (Some \<lparr>status = 404, body = ''not found''\<rparr>)),
      [(''angaza-creatives-v1'', [])]) \<and>
   fetch_listener host_online
     \<lparr>req_method = ''GET'', url = ''https://shine.example/api/prices'', mode = ''cors''\<rparr>
     [(''angaza-creatives-v1'', [])]
   = (RespondWith (Fulfilled (Some \<lparr>status = 200, body = ''fresh''\<rparr>)),
      [(''angaza-creatives-v1'', [])]) \<and>
   cache_lookup
     \<lparr>req_method = ''GET'', url = ''https://shine.example/static/js/main.js'', mode = ''no-cors''\<rparr>
     (bucket (snd (fetch_listener host_online
        \<lparr>req_method = ''GET'', url = ''https://shine.example/static/js/main.js'', mode = ''no-cors''\<rparr>
        [(''angaza-creatives-v1'', [])])) CACHE_NAME)
   = Some \<lparr>status = 200, body = ''fresh''\<rparr>"
proof -
  let ?gone = "\<lparr>req_method = ''GET'', url = ''https://shine.example/static/css/gone.css'', mode = ''no-cors''\<rparr>"
  let ?api = "\<lparr>req_method = ''GET'', url = ''https://shine.example/api/prices'', mode = ''cors''\<rparr>"
  let ?js = "\<lparr>req_method = ''GET'', url = ''https://shine.example/static/js/main.js'', mode = ''no-cors''\<rparr>"
  let ?s = "[(''angaza-creatives-v1'', [])] :: storage"
  have a: "fst (fetch_listener host_not_found ?gone ?s)
             = RespondWith (Fulfilled (Some \<lparr>status = 404, body = ''not found''\<rparr>))"
    and b: "snd (fetch_listener host_not_found ?gone ?s) = ?s"
    using stored_iff_ok_and_static
      [of ?gone host_not_found "\<lparr>status = 404, body = ''not found''\<rparr>" ?s]
    by (simp_all add: startsWith_def example_defs)
  have c: "fst (fetch_listener host_online ?api ?s)
             = RespondWith (Fulfilled (Some \<lparr>status = 200, body = ''fresh''\<rparr>))"
    and d: "snd (fetch_listener host_online ?api ?s) = ?s"
    using stored_iff_ok_and_static
      [of ?api host_online "\<lparr>status = 200, body = ''fresh''\<rparr>" ?s]
    by (simp_all add: startsWith_def example_defs)
  have e: "cache_lookup ?js (bucket (snd (fetch_listener host_online ?js ?s)) CACHE_NAME)
             = Some \<lparr>status = 200, body = ''fresh''\<rparr>"
    using stored_iff_ok_and_static
      [of ?js host_online "\<lparr>status = 200, body = ''fresh''\<rparr>" ?s]
    by (simp add: startsWith_def example_defs)
  from a b c d e show ?thesis by (simp add: prod_eq_iff)
qed

text \<open>
  C10. The worker tests the whole URL string for the text \<^verbatim>\<open>/static/\<close>, not the path of
  the URL: a GET request sent over the network whose URL contains \<^verbatim>\<open>/static/\<close> while its
  path does not (the text is in the query, for one), answered with status 200, is stored in
  the bucket of the current generation all the same (the storage accepting the store).
\<close>

theorem static_test_on_whole_url:
  assumes "req_method req = ''GET''"
    and "\<not> startsWith (url req) ''chrome-extension://''"
    and "network h req = Some r" and "status r = 200"
    and "str_includes (url req) ''/static/''"
    and "\<not> str_includes (url_pathname (url req)) ''/static/''"
    and "\<not> put_rejects h req"
  shows "cache_lookup req (bucket (snd (fetch_listener h req s)) CACHE_NAME) = Some r"
  using assms
  by (simp add: fetch_listener_online bucket_update_bucket name_in_open_bucket lookup_put_entry
      del: set_map)

theorem static_test_on_whole_url_witness:
  "url_pathname ''https://shine.example/products?next=/static/'' = ''/products'' \<and>
   cache_lookup
     \<lparr>req_method = ''GET'', url = ''https://shine.example/products?next=/static/'', mode = ''navigate''\<rparr>
     (bucket (snd (fetch_listener host_online
        \<lparr>req_method = ''GET'', url = ''https://shine.example/products?next=/static/'', mode = ''navigate''\<rparr>
        [])) CACHE_NAME)
   = Some \<lparr>status = 200, body = ''fresh''\<rparr>"
proof -
  let ?q = "\<lparr>req_method = ''GET'', url = ''https://shine.example/products?next=/static/'', mode = ''navigate''\<rparr>"
  let ?r = "\<lparr>status = 200, body = ''fresh''\<rparr>"
  have p: "url_pathname ''https://shine.example/products?next=/static/'' = ''/products''"
    by (simp add: url_pathname_def startsWith_def)
  have 1: "req_method ?q = ''GET''" by simp
  have 2: "\<not> startsWith (url ?q) ''chrome-extension://''" by (simp add: startsWith_def)
  have 3: "network host_online ?q = Some ?r" by (simp add: example_defs)
  have 4: "status ?r = 200" by simp
  have 5: "str_includes (url ?q) ''/static/''" by (simp add: startsWith_def)
  have 6: "\<not> str_includes (url_pathname (url ?q)) ''/static/''"
    by (simp add: p) (simp add: startsWith_def)
  have 7: "\<not> put_rejects host_online ?q" by (simp add: example_defs)
  from static_test_on_whole_url [OF 1 2 3 4 5 6 7] p show ?thesis by blast
qed

text \<open>
  C7. The store of the fetch path is fire and forget, and it stores a duplicate.
  The answer does not depend on whether the storage accepts or refuses the store: replacing
  the host's verdict on the store by any other leaves the answer the same. For a request
  answered by the network, the answer is the network's response, fulfilled even when the
  store is refused. The store is not awaited: at the moment of the answer the bucket of the
  current generation is still as it was before the request, and the entry is written only
  afterwards. The store succeeds although by then the body of the response handed to the
  page has been read: what is stored is the duplicate, taken before the response was
  returned, and it has the status and body of the original. A refused store leaves the bucket
  as it was.
\<close>

theorem store_outcome_unobserved:
  "answer (fetch_handler (h\<lparr>put_rejects := f\<rparr>) req s) = answer (fetch_handler h req s) \<and>
   (req_method req = ''GET'' \<and> \<not> startsWith (url req) ''chrome-extension://'' \<and>
    network h req = Some r \<longrightarrow>
      answer (fetch_handler h req s) = RespondWith (Fulfilled (Some r)) \<and>
      bucket (storage_at_answer (fetch_handler h req s)) CACHE_NAME = bucket s CACHE_NAME \<and>
      (put_rejects h req \<longrightarrow>
         bucket (storage_settled (fetch_handler h req s)) CACHE_NAME = bucket s CACHE_NAME) \<and>
      (\<not> put_rejects h req \<and> status r = 200 \<and> str_includes (url req) ''/static/'' \<longrightarrow>
         cache_lookup req (bucket (storage_settled (fetch_handler h req s)) CACHE_NAME)
           = Some r))"
proof -
  have 1: "answer (fetch_handler (h\<lparr>put_rejects := f\<rparr>) req s) = answer (fetch_handler h req s)"
  proof (cases "req_method req = ''GET'' \<and> \<not> startsWith (url req) ''chrome-extension://''")
    case False
    then show ?thesis by (auto simp: fetch_handler_def)
  next
    case True
    then show ?thesis
      by (cases "network h req")
        (simp_all add: fetch_online fetch_offline url_request_def split: option.splits)
  qed
  have 2: "answer (fetch_handler h req s) = RespondWith (Fulfilled (Some r))"
    and 3: "bucket (storage_at_answer (fetch_handler h req s)) CACHE_NAME = bucket s CACHE_NAME"
    if "req_method req = ''GET''" "\<not> startsWith (url req) ''chrome-extension://''"
       "network h req = Some r"
    using that by (simp_all add: fetch_online)
  have 4: "bucket (storage_settled (fetch_handler h req s)) CACHE_NAME = bucket s CACHE_NAME"
    if "req_method req = ''GET''" "\<not> startsWith (url req) ''chrome-extension://''"
       "network h req = Some r" "put_rejects h req"
    using that by (simp add: fetch_online bucket_open_bucket)
  have 5: "cache_lookup req (bucket (storage_settled (fetch_handler h req s)) CACHE_NAME) = Some r"
    if "req_method req = ''GET''" "\<not> startsWith (url req) ''chrome-extension://''"
       "network h req = Some r" "\<not> put_rejects h req" "status r = 200"
       "str_includes (url req) ''/static/''"
    using that
    by (simp add: fetch_online bucket_update_bucket name_in_open_bucket lookup_put_entry
        del: set_map)
  from 1 2 3 4 5 show ?thesis by blast
qed

theorem store_outcome_unobserved_witness:
  "fetch_handler host_online
     \<lparr>req_method = ''GET'', url = ''https://shine.example/static/css/style.css'', mode = ''no-cors''\<rparr>
     [(''angaza-creatives-v1'', [])]
   = \<lparr>answer = RespondWith (Fulfilled (Some \<lparr>status = 200, body = ''fresh''\<rparr>)),
      storage_at_answer = [(''angaza-creatives-v1'', [])],
      storage_settled =
        [(''angaza-creatives-v1'',
          [(\<lparr>req_method = ''GET'', url = ''https://shine.example/static/css/style.css'', mode = ''no-cors''\<rparr>,
            \<lparr>status = 200, body = ''fresh''\<rparr>)])]\<rparr> \<and>
   answer (fetch_handler host_storage_full
     \<lparr>req_method = ''GET'', url = ''https://shine.example/static/css/style.css'', mode = ''no-cors''\<rparr>
     [(''angaza-creatives-v1'', [])])
   = RespondWith (Fulfilled (Some \<lparr>status = 200, body = ''fresh''\<rparr>)) \<and>
   bucket (storage_settled (fetch_handler host_storage_full
     \<lparr>req_method = ''GET'', url = ''https://shine.example/static/css/style.css'', mode = ''no-cors''\<rparr>
     [(''angaza-creatives-v1'', [])])) CACHE_NAME
   = []"
proof -
  let ?q = "\<lparr>req_method = ''GET'', url = ''https://shine.example/static/css/style.css'', mode = ''no-cors''\<rparr>"
  let ?r = "\<lparr>status = 200, body = ''fresh''\<rparr>"
  let ?s = "[(''angaza-creatives-v1'', [])] :: storage"
  have 1: "req_method ?q = ''GET''" by simp
  have 2: "\<not> startsWith (url ?q) ''chrome-extension://''" by (simp add: startsWith_def)
  have 3: "network host_storage_full ?q = Some ?r" by (simp add: example_defs)
  have 4: "put_rejects host_storage_full ?q" by (simp add: example_defs)
  from store_outcome_unobserved [where h = host_storage_full and req = ?q and s = ?s and r = ?r]
    1 2 3 4
  have a: "answer (fetch_handler host_storage_full ?q ?s) = RespondWith (Fulfilled (Some ?r))"
    and b: "bucket (storage_settled (fetch_handler host_storage_full ?q ?s)) CACHE_NAME
            = bucket ?s CACHE_NAME"
    by blast+
  have c: "fetch_handler host_online ?q ?s
     = \<lparr>answer = RespondWith (Fulfilled (Some ?r)), storage_at_answer = ?s,
        storage_settled = [(''angaza-creatives-v1'', [(?q, ?r)])]\<rparr>"
    by (simp add: promise_defs host_defs worker_defs example_defs)
  from a b c show ?thesis by (simp add: bucket_def CACHE_NAME_def)
qed

subsection \<open>Requests the network does not answer\<close>

text \<open>
  C5, as the specification states it, fails: the lookup is not confined to the bucket of
  the current generation. Below the network is down, the bucket of the current generation
  is empty and the bucket of another generation holds the stylesheet: the worker answers
  the sub-resource request with that entry, where the fallback on the current bucket alone
  gives no response.
\<close>

theorem offline_lookup_reaches_other_bucket:
  "fetch_listener host_offline
     \<lparr>req_method = ''GET'', url = ''https://shine.example/static/css/style.css'', mode = ''no-cors''\<rparr>
     [(''angaza-creatives-v1'', []),
      (''angaza-creatives-v2'',
        [(\<lparr>req_method = ''GET'', url = ''https://shine.example/static/css/style.css'', mode = ''cors''\<rparr>,
          \<lparr>status = 200, body = ''v2 style''\<rparr>)])]
   = (RespondWith (Fulfilled (Some \<lparr>status = 200, body = ''v2 style''\<rparr>)),
      [(''angaza-creatives-v1'', []),
       (''angaza-creatives-v2'',
        [(\<lparr>req_method = ''GET'', url = ''https://shine.example/static/css/style.css'', mode = ''cors''\<rparr>,
          \<lparr>status = 200, body = ''v2 style''\<rparr>)])]) \<and>
   spec_offline_reply host_offline
     \<lparr>req_method = ''GET'', url = ''https://shine.example/static/css/style.css'', mode = ''no-cors''\<rparr>
     [(''angaza-creatives-v1'', []),
      (''angaza-creatives-v2'',
        [(\<lparr>req_method = ''GET'', url = ''https://shine.example/static/css/style.css'', mode = ''cors''\<rparr>,
          \<lparr>status = 200, body = ''v2 style''\<rparr>)])]
   = None"
  by (simp add: promise_defs host_defs worker_defs example_defs spec_offline_reply_def)

text \<open>
  C5, amended. For a GET request the worker sends over the network and the network does not
  answer, the reply is a three-step fallback on the cache storage of the origin, every
  bucket being asked in creation order: the first stored entry matching the request (a
  fragment in the URL does not count); otherwise, for a request in navigation mode, the
  first stored entry for the root document \<^verbatim>\<open>/\<close>, if there is one; otherwise no response.
  The storage is not changed. When the bucket of the current generation is the only bucket,
  this is the fallback on that bucket.
\<close>

theorem offline_fallback:
  assumes "req_method req = ''GET''"
    and "\<not> startsWith (url req) ''chrome-extension://''"
    and "network h req = None"
  shows "fetch_listener h req s =
     (RespondWith (Fulfilled
        (case storage_lookup req s of
           Some r \<Rightarrow> Some r
         | None \<Rightarrow>
             if mode req = ''navigate'' then storage_lookup (url_request h ''/'') s else None)),
      s) \<and>
     (length s \<le> 1 \<and> (\<forall>b\<in>set s. fst b = CACHE_NAME) \<longrightarrow>
        fetch_listener h req s = (RespondWith (Fulfilled (spec_offline_reply h req s)), s))"
  using assms
  by (simp add: fetch_listener_offline storage_lookup_current_only spec_offline_reply_def
      split: option.splits)

theorem offline_fallback_witness:
  "fetch_listener host_offline
     \<lparr>req_method = ''GET'', url = ''https://shine.example/products/'', mode = ''navigate''\<rparr>
     [(''angaza-creatives-v1'',
        [(\<lparr>req_method = ''GET'', url = ''https://shine.example/'', mode = ''cors''\<rparr>,
          \<lparr>status = 200, body = ''home''\<rparr>)])]
   = (RespondWith (Fulfilled (Some \<lparr>status = 200, body = ''home''\<rparr>)),
      [(''angaza-creatives-v1'',
        [(\<lparr>req_method = ''GET'', url = ''https://shine.example/'', mode = ''cors''\<rparr>,
          \<lparr>status = 200, body = ''home''\<rparr>)])]) \<and>
   fetch_listener host_offline
     \<lparr>req_method = ''GET'', url = ''https://shine.example/static/js/main.js'', mode = ''no-cors''\<rparr>
     [(''angaza-creatives-v1'',
        [(\<lparr>req_method = ''GET'', url = ''https://shine.example/'', mode = ''cors''\<rparr>,
          \<lparr>status = 200, body = ''home''\<rparr>)])]
   = (RespondWith (Fulfilled None),
      [(''angaza-creatives-v1'',
        [(\<lparr>req_method = ''GET'', url = ''https://shine.example/'', mode = ''cors''\<rparr>,
          \<lparr>status = 200, body = ''home''\<rparr>)])]) \<and>
   fetch_listener host_offline
     \<lparr>req_method = ''GET'', url = ''https://shine.example/#top'', mode = ''no-cors''\<rparr>
     [(''angaza-creatives-v1'',
        [(\<lparr>req_method = ''GET'', url = ''https://shine.example/'', mode = ''cors''\<rparr>,
          \<lparr>status = 200, body = ''home''\<rparr>)])]
   = (RespondWith (Fulfilled (Some \<lparr>status = 200, body = ''home''\<rparr>)),
      [(''angaza-creatives-v1'',
        [(\<lparr>req_method = ''GET'', url = ''https://shine.example/'', mode = ''cors''\<rparr>,
          \<lparr>status = 200, body = ''home''\<rparr>)])])"
proof -
  let ?page = "\<lparr>req_method = ''GET'', url = ''https://shine.example/products/'', mode = ''navigate''\<rparr>"
  let ?js = "\<lparr>req_method = ''GET'', url = ''https://shine.example/static/js/main.js'', mode = ''no-cors''\<rparr>"
  let ?top = "\<lparr>req_method = ''GET'', url = ''https://shine.example/#top'', mode = ''no-cors''\<rparr>"
  let ?s = "[(''angaza-creatives-v1'',
        [(\<lparr>req_method = ''GET'', url = ''https://shine.example/'', mode = ''cors''\<rparr>,
          \<lparr>status = 200, body = ''home''\<rparr>)])]"
  have one: "length ?s \<le> 1 \<and> (\<forall>b\<in>set ?s. fst b = CACHE_NAME)" by (simp add: CACHE_NAME_def)
  have g: "req_method ?page = ''GET''" "req_method ?js = ''GET''" "req_method ?top = ''GET''"
    by simp_all
  have x: "\<not> startsWith (url ?page) ''chrome-extension://''"
    "\<not> startsWith (url ?js) ''chrome-extension://''"
    "\<not> startsWith (url ?top) ''chrome-extension://''"
    by (simp_all add: startsWith_def)
  have n: "network host_offline ?page = None" "network host_offline ?js = None"
    "network host_offline ?top = None"
    by (simp_all add: example_defs)
  have a: "fetch_listener host_offline ?page ?s
      = (RespondWith (Fulfilled (spec_offline_reply host_offline ?page ?s)), ?s)"
    using offline_fallback [OF g(1) x(1) n(1), of ?s] one by blast
  have b: "fetch_listener host_offline ?js ?s
      = (RespondWith (Fulfilled (spec_offline_reply host_offline ?js ?s)), ?s)"
    using offline_fallback [OF g(2) x(2) n(2), of ?s] one by blast
  have t: "fetch_listener host_offline ?top ?s
      = (RespondWith (Fulfilled (spec_offline_reply host_offline ?top ?s)), ?s)"
    using offline_fallback [OF g(3) x(3) n(3), of ?s] one by blast
  have c: "spec_offline_reply host_offline ?page ?s = Some \<lparr>status = 200, body = ''home''\<rparr>"
    by (simp add: spec_offline_reply_def host_defs CACHE_NAME_def example_defs)
  have d: "spec_offline_reply host_offline ?js ?s = None"
    by (simp add: spec_offline_reply_def host_defs CACHE_NAME_def example_defs)
  have e: "spec_offline_reply host_offline ?top ?s = Some \<lparr>status = 200, body = ''home''\<rparr>"
    by (simp add: spec_offline_reply_def host_defs CACHE_NAME_def example_defs)
  from a b t c d e show ?thesis by simp
qed

end
